theory Spec2Isabelle
  imports Complex_Main
begin

unbundle bit_operations_syntax

section \<open>Python values shared by the two modules\<close>

text \<open>
  Node identifiers are non-negative Python integers. Secret values, coins and recorded
  outcomes are Python integers (a \<open>bool\<close> is the integer 0 or 1), so \<open>^\<close> is the bitwise
  exclusive or on \<^typ>\<open>int\<close> and \<open>%\<close> is \<open>mod\<close>. Every exception the source can raise is
  a value of \<open>py_error\<close>; a function that can raise returns \<open>py_error + 'a\<close>.
\<close>

type_synonym node = nat

datatype py_error =
    KeyError
  | IndexError
  | TypeError
  | ValueError string
  | NetworkXError

text \<open>\<open>d[k]\<close> on a dictionary raises \<open>KeyError\<close>; \<open>d.get(k, 0)\<close> never does.\<close>

definition getitem :: "('k \<rightharpoonup> 'v) \<Rightarrow> 'k \<Rightarrow> py_error + 'v" where
  "getitem d k = (case d k of None \<Rightarrow> Inl KeyError | Some v \<Rightarrow> Inr v)"

definition get_default :: "('k \<rightharpoonup> int) \<Rightarrow> 'k \<Rightarrow> int" where
  "get_default d k = (case d k of None \<Rightarrow> 0 | Some v \<Rightarrow> v)"

text \<open>\<open>[d[k] for k in ks]\<close>: the first missing key raises.\<close>

fun getitems :: "('k \<rightharpoonup> 'v) \<Rightarrow> 'k list \<Rightarrow> py_error + 'v list" where
  "getitems d [] = Inr []"
| "getitems d (k # ks) =
     (case getitem d k of
        Inl e \<Rightarrow> Inl e
      | Inr v \<Rightarrow> (case getitems d ks of Inl e \<Rightarrow> Inl e | Inr vs \<Rightarrow> Inr (v # vs)))"

text \<open>
  The exclusive or of a list of integers, the notion the specification uses where the
  source computes \<open>sum(...) % 2\<close>.
\<close>

definition xor_list :: "int list \<Rightarrow> int" where
  "xor_list vs = foldr (\<lambda>v acc. v XOR acc) vs 0"

definition is_bit :: "int \<Rightarrow> bool" where
  "is_bit v = (v = 0 \<or> v = 1)"

section \<open>Pauli strings (the part of \<open>stim.PauliString\<close> the canvas uses)\<close>

datatype pauli = PauliI | PauliX | PauliY | PauliZ

record pauli_string =
  sign :: complex
  paulis :: "pauli list"


text \<open>\<open>s.pauli_indices(letters)\<close>: the indices, ascending, that hold one of the letters.\<close>

definition pauli_indices :: "pauli_string \<Rightarrow> pauli list \<Rightarrow> nat list" where
  "pauli_indices s letters =
     filter (\<lambda>k. paulis s ! k \<in> set letters) [0 ..< length (paulis s)]"

text \<open>\<open>s[k] = p\<close> raises \<open>IndexError\<close> out of range.\<close>

definition setitem :: "pauli_string \<Rightarrow> nat \<Rightarrow> pauli \<Rightarrow> py_error + pauli_string" where
  "setitem s k p =
     (if k < length (paulis s) then Inr (s\<lparr>paulis := (paulis s)[k := p]\<rparr>)
      else Inl IndexError)"

subsection \<open>\<open>TrappifiedCanvas.common_eigenstate\<close> and \<open>TrappifiedCanvas.merge\<close>\<close>

definition common_eigenstate :: "pauli_string \<Rightarrow> pauli_string \<Rightarrow> bool" where
  "common_eigenstate stabilizer_1 stabilizer_2 =
     (let match_X = set (pauli_indices stabilizer_1 [PauliX])
            \<subseteq> set (pauli_indices stabilizer_2 [PauliX]) \<union> set (pauli_indices stabilizer_2 [PauliI]);
          match_Y = set (pauli_indices stabilizer_1 [PauliY])
            \<subseteq> set (pauli_indices stabilizer_2 [PauliY]) \<union> set (pauli_indices stabilizer_2 [PauliI]);
          match_Z = set (pauli_indices stabilizer_1 [PauliZ])
            \<subseteq> set (pauli_indices stabilizer_2 [PauliZ]) \<union> set (pauli_indices stabilizer_2 [PauliI])
      in match_X \<and> match_Y \<and> match_Z)"

text \<open>The loop \<open>for node in stabilizer_2.pauli_indices("XYZ"): result[node] = stabilizer_2[node]\<close>.\<close>

fun merge_loop :: "pauli_string \<Rightarrow> nat list \<Rightarrow> pauli_string \<Rightarrow> py_error + pauli_string" where
  "merge_loop stabilizer_2 [] result = Inr result"
| "merge_loop stabilizer_2 (k # ks) result =
     (case setitem result k (paulis stabilizer_2 ! k) of
        Inl e \<Rightarrow> Inl e
      | Inr result' \<Rightarrow> merge_loop stabilizer_2 ks result')"

definition merge :: "pauli_string \<Rightarrow> pauli_string \<Rightarrow> py_error + pauli_string" where
  "merge stabilizer_1 stabilizer_2 =
     merge_loop stabilizer_2 (pauli_indices stabilizer_2 [PauliX, PauliY, PauliZ])
       (stabilizer_1\<lparr>sign := sign stabilizer_2 * sign stabilizer_1\<rparr>)"

subsection \<open>\<open>TrappifiedCanvas.merge_pauli_list\<close>\<close>

text \<open>\<open>del xs[j]\<close> for an index in range.\<close>

definition del_at :: "nat \<Rightarrow> 'a list \<Rightarrow> 'a list" where
  "del_at j xs = take j xs @ drop (Suc j) xs"

text \<open>
  The innermost loop \<open>while j < len(pauli_list)\<close>. It ends either at the first \<open>j\<close> whose
  stabilizer is compatible with the one at \<open>i\<close> (merge, delete, set the flag, \<open>break\<close>) or
  when \<open>j\<close> runs off the list. It returns the list and the flag.
\<close>

function inner_while ::
  "pauli_string list \<Rightarrow> bool \<Rightarrow> nat \<Rightarrow> nat \<Rightarrow> py_error + (pauli_string list \<times> bool)" where
  "inner_while pauli_list merged i j =
     (if j < length pauli_list then
        (if common_eigenstate (pauli_list ! i) (pauli_list ! j) then
           (case merge (pauli_list ! i) (pauli_list ! j) of
              Inl e \<Rightarrow> Inl e
            | Inr merged_pauli \<Rightarrow> Inr (del_at j (pauli_list[i := merged_pauli]), True))
         else inner_while pauli_list merged i (j + 1))
      else Inr (pauli_list, merged))"
  by pat_completeness auto
termination
  by (relation "measure (\<lambda>(pauli_list, merged, i, j). length pauli_list - j)") auto

declare inner_while.simps [simp del]

text \<open>
  The middle loop \<open>while i < len(pauli_list) - 1\<close>. The index \<open>i\<close> advances only while the
  flag is still unset (\<open>if not merged: i += 1\<close>), so nothing bounds the number of
  iterations: the loop is a partial function, \<open>None\<close> meaning that it does not return.
\<close>

partial_function (option) middle_while ::
  "pauli_string list \<Rightarrow> bool \<Rightarrow> nat \<Rightarrow> (py_error + (pauli_string list \<times> bool)) option" where
  "middle_while pauli_list merged i =
     (if int i < int (length pauli_list) - 1 then
        (case inner_while pauli_list merged i (i + 1) of
           Inl e \<Rightarrow> Some (Inl e)
         | Inr (pauli_list', merged') \<Rightarrow>
             middle_while pauli_list' merged' (if \<not> merged' then i + 1 else i))
      else Some (Inr (pauli_list, merged)))"

text \<open>The outer loop \<open>while merged\<close>, entered with the flag set.\<close>

partial_function (option) outer_while ::
  "pauli_string list \<Rightarrow> bool \<Rightarrow> (py_error + pauli_string list) option" where
  "outer_while pauli_list merged =
     (if merged then
        Option.bind (middle_while pauli_list False 0)
          (\<lambda>r. case r of
                 Inl e \<Rightarrow> Some (Inl e)
               | Inr (pauli_list', merged') \<Rightarrow> outer_while pauli_list' merged')
      else Some (Inr pauli_list))"

text \<open>\<open>return pauli_list[0]\<close> raises \<open>IndexError\<close> on the empty list.\<close>

definition merge_pauli_list :: "pauli_string list \<Rightarrow> (py_error + pauli_string) option" where
  "merge_pauli_list pauli_list =
     Option.bind (outer_while pauli_list True)
       (\<lambda>r. case r of
              Inl e \<Rightarrow> Some (Inl e)
            | Inr pauli_list' \<Rightarrow>
                (case pauli_list' of [] \<Rightarrow> Some (Inl IndexError) | p # _ \<Rightarrow> Some (Inr p)))"

section \<open>Randomness\<close>

text \<open>
  The two modules draw from the global generators of \<open>numpy.random\<close> and \<open>random\<close>. A
  generator is an arbitrary sequence of raw values and a position in it; every draw reads
  the value at the position, reduces it to the requested range and advances the position.
  \<open>np.random.randint(low, high)\<close> excludes \<open>high\<close>, \<open>random.randint(a, b)\<close> includes \<open>b\<close>.
\<close>

record rng =
  raw :: "nat \<Rightarrow> nat"
  pos :: nat

definition np_randint :: "int \<Rightarrow> int \<Rightarrow> rng \<Rightarrow> int \<times> rng" where
  "np_randint low high g =
     (low + int (raw g (pos g)) mod (high - low), g\<lparr>pos := pos g + 1\<rparr>)"


section \<open>\<open>client.py\<close>: secrets\<close>

text \<open>
  The dataclasses \<open>Secrets\<close>, \<open>Secret_a\<close> and \<open>SecretDatas\<close>. Their one-letter fields are
  written \<open>use_r\<close>, \<open>use_a\<close>, \<open>use_theta\<close> (the flags), \<open>val_a\<close>, \<open>val_a_N\<close> (the two
  dictionaries of \<open>Secret_a\<close>) and \<open>data_r\<close>, \<open>data_a\<close>, \<open>data_theta\<close>.
\<close>

record Secrets =
  use_r :: bool
  use_a :: bool
  use_theta :: bool

record Secret_a =
  val_a :: "node \<rightharpoonup> int"
  val_a_N :: "node \<rightharpoonup> int"

record SecretDatas =
  data_r :: "node \<rightharpoonup> int"
  data_a :: Secret_a
  data_theta :: "node \<rightharpoonup> int"

type_synonym graph = "node list \<times> (node \<times> node) list"

text \<open>
  The three loops of \<open>from_secrets\<close> that draw a secret per node have one shape,
  \<open>d[node] = np.random.randint(0, high) if node not in zero_nodes else 0\<close>; the generator
  is consulted only for the nodes outside \<open>zero_nodes\<close>.
\<close>

fun draw_secrets ::
  "int \<Rightarrow> node list \<Rightarrow> node list \<Rightarrow> (node \<rightharpoonup> int) \<Rightarrow> rng \<Rightarrow> (node \<rightharpoonup> int) \<times> rng" where
  "draw_secrets high [] zero_nodes d g = (d, g)"
| "draw_secrets high (n # ns) zero_nodes d g =
     (if n \<notin> set zero_nodes then
        (case np_randint 0 high g of
           (v, g') \<Rightarrow> draw_secrets high ns zero_nodes (d(n \<mapsto> v)) g')
      else draw_secrets high ns zero_nodes (d(n \<mapsto> 0)) g)"

text \<open>The inner loop \<open>for j in node_list\<close> that accumulates \<open>a_N_value\<close>.\<close>

fun a_N_inner ::
  "(node \<times> node) list \<Rightarrow> (node \<rightharpoonup> int) \<Rightarrow> node \<Rightarrow> node list \<Rightarrow> int \<Rightarrow> py_error + int" where
  "a_N_inner edge_list a i [] a_N_value = Inr a_N_value"
| "a_N_inner edge_list a i (j # js) a_N_value =
     (if (i, j) \<in> set edge_list \<or> (j, i) \<in> set edge_list then
        (case getitem a j of
           Inl e \<Rightarrow> Inl e
         | Inr v \<Rightarrow> a_N_inner edge_list a i js (a_N_value XOR v))
      else a_N_inner edge_list a i js a_N_value)"

text \<open>The outer loop \<open>for i in node_list\<close>; \<open>is\<close> is what is left of it.\<close>

fun a_N_outer ::
  "(node \<times> node) list \<Rightarrow> (node \<rightharpoonup> int) \<Rightarrow> node list \<Rightarrow> node list \<Rightarrow> (node \<rightharpoonup> int)
   \<Rightarrow> py_error + (node \<rightharpoonup> int)" where
  "a_N_outer edge_list a node_list [] a_N = Inr a_N"
| "a_N_outer edge_list a node_list (i # is) a_N =
     (case a_N_inner edge_list a i node_list 0 of
        Inl e \<Rightarrow> Inl e
      | Inr a_N_value \<Rightarrow> a_N_outer edge_list a node_list is (a_N(i \<mapsto> a_N_value)))"

definition from_secrets ::
  "Secrets \<Rightarrow> graph \<Rightarrow> node list \<Rightarrow> node list \<Rightarrow> rng \<Rightarrow> py_error + (SecretDatas \<times> rng)" where
  "from_secrets secrets graph input_nodes output_nodes g =
     (case graph of (node_list, edge_list) \<Rightarrow>
      (case (if use_r secrets then draw_secrets 2 node_list output_nodes Map.empty g
             else (Map.empty, g)) of (r, g1) \<Rightarrow>
      (case (if use_theta secrets then draw_secrets 8 node_list output_nodes Map.empty g1
             else (Map.empty, g1)) of (theta, g2) \<Rightarrow>
      (case (if use_a secrets then draw_secrets 2 node_list input_nodes Map.empty g2
             else (Map.empty, g2)) of (a, g3) \<Rightarrow>
      (case (if use_a secrets then a_N_outer edge_list a node_list node_list Map.empty
             else Inr Map.empty) of
         Inl e \<Rightarrow> Inl e
       | Inr a_N \<Rightarrow>
           Inr (\<lparr>data_r = r, data_a = \<lparr>val_a = a, val_a_N = a_N\<rparr>, data_theta = theta\<rparr>,
                g3))))))"

section \<open>\<open>client.py\<close>: patterns\<close>

text \<open>
  The commands of a pattern are the five variants of the specification and the bare
  measurement \<open>BaseM(node)\<close> that \<open>remove_flow\<close> produces. \<open>M\<close> is a subclass of \<open>BaseM\<close>:
  both have kind \<open>M\<close>.
\<close>

datatype plane = XY | YZ | XZ

record M =
  m_node :: node
  m_plane :: plane
  m_angle :: real
  s_domain :: "node list"
  t_domain :: "node list"

datatype command =
    CmdN node
  | CmdE node node
  | CmdM M
  | CmdX node "node list"
  | CmdZ node "node list"
  | CmdBaseM node

datatype CommandKind = KindN | KindE | KindM | KindX | KindZ

fun kind :: "command \<Rightarrow> CommandKind" where
  "kind (CmdN n) = KindN"
| "kind (CmdE n1 n2) = KindE"
| "kind (CmdM m) = KindM"
| "kind (CmdX n domain) = KindX"
| "kind (CmdZ n domain) = KindZ"
| "kind (CmdBaseM n) = KindM"

text \<open>\<open>cmd.node\<close>, read only from commands that have the attribute.\<close>

fun cmd_node :: "command \<Rightarrow> node" where
  "cmd_node (CmdN n) = n"
| "cmd_node (CmdE n1 n2) = n1"
| "cmd_node (CmdM m) = m_node m"
| "cmd_node (CmdX n domain) = n"
| "cmd_node (CmdZ n domain) = n"
| "cmd_node (CmdBaseM n) = n"

text \<open>
  A pattern is its input nodes and its command sequence. What the external library derives
  from them (\<open>output_nodes\<close>, \<open>get_graph()\<close>, \<open>results\<close>) is passed to the client's
  constructor beside the pattern.
\<close>

record Pattern =
  pat_input_nodes :: "node list"
  pat_seq :: "command list"

text \<open>
  The loop of \<open>remove_flow\<close>; \<open>clean\<close> is the sequence of \<open>clean_pattern\<close> built so far and
  \<open>clean_pattern.add(new_cmd)\<close> appends to it.
\<close>

fun remove_flow_loop :: "command list \<Rightarrow> command list \<Rightarrow> command list" where
  "remove_flow_loop [] clean = clean"
| "remove_flow_loop (cmd # cmds) clean =
     (if kind cmd \<in> {KindX, KindZ} then remove_flow_loop cmds clean
      else
        (let new_cmd = (if kind cmd = KindM then CmdBaseM (cmd_node cmd) else cmd)
         in remove_flow_loop cmds (clean @ [new_cmd])))"

definition remove_flow :: "Pattern \<Rightarrow> Pattern" where
  "remove_flow pattern =
     \<lparr>pat_input_nodes = pat_input_nodes pattern,
      pat_seq = remove_flow_loop (pat_seq pattern) []\<rparr>"




section \<open>The backend\<close>

text \<open>
  The execution backend is an external collaborator. It is represented by the sequence of
  calls made to it, in order; the bit a measurement returns is given by an oracle on the
  calls made so far (the measurement itself included), so that any backend, honest or not,
  is some oracle. A backend loaded with the state of another one (the preparation backend
  of a test run) records that backend's calls.
\<close>

datatype BasicStates = PLUS | MINUS | ZERO | ONE | PLUS_I | MINUS_I

datatype single_op = OpI | OpX | OpZ | z_rotation int

record Measurement =
  meas_plane :: plane
  meas_angle :: real

datatype backend_call =
    AddNodes "node list" "BasicStates list"
  | AddPrepared "node list" "backend_call list"
  | ApplySingle node single_op
  | Entangle node node
  | Measure node Measurement

type_synonym backend = "backend_call list"

type_synonym outcome_oracle = "backend_call list \<Rightarrow> bool"

section \<open>\<open>client.py\<close>: the client\<close>

record ByProduct =
  z_domain :: "node list"
  x_domain :: "node list"

text \<open>The attributes of a client that the methods below read or write.\<close>

record Client =
  input_nodes :: "node list"
  output_nodes :: "node list"
  graph :: graph
  nodes_list :: "node list"
  results :: "node \<rightharpoonup> int"
  measurement_db :: "node \<rightharpoonup> M"
  byproduct_db :: "node \<rightharpoonup> ByProduct"
  secret_datas :: SecretDatas
  clean_pattern :: Pattern
  input_state :: "BasicStates list"

subsection \<open>\<open>ClientMeasureMethod\<close>\<close>

text \<open>
  \<open>MeasureUpdate.compute(plane, s, t, Clifford.I)\<close> belongs to the external library; it is
  a parameter \<open>compute\<close> of everything that measures.
\<close>

record MeasureUpdate =
  new_plane :: plane
  coeff :: int
  add_term :: real

type_synonym compute = "plane \<Rightarrow> bool \<Rightarrow> bool \<Rightarrow> MeasureUpdate"

definition get_measurement_description ::
  "compute \<Rightarrow> Client \<Rightarrow> node \<Rightarrow> py_error + Measurement" where
  "get_measurement_description compute client node =
     (case getitem (measurement_db client) node of
        Inl e \<Rightarrow> Inl e
      | Inr parameters \<Rightarrow>
     (let r_value = get_default (data_r (secret_datas client)) node;
          theta_value = get_default (data_theta (secret_datas client)) node;
          a_value = get_default (val_a (data_a (secret_datas client))) node;
          a_N_value = get_default (val_a_N (data_a (secret_datas client))) node
      in
     (case getitems (results client) (s_domain parameters) of
        Inl e \<Rightarrow> Inl e
      | Inr s_results \<Rightarrow>
     (case getitems (results client) (t_domain parameters) of
        Inl e \<Rightarrow> Inl e
      | Inr t_results \<Rightarrow>
     (let s_signal = sum_list s_results;
          t_signal = sum_list t_results;
          measure_update =
            compute (m_plane parameters) (s_signal mod 2 = 1) (t_signal mod 2 = 1);
          angle = m_angle parameters * pi;
          angle' = angle * of_int (coeff measure_update) + add_term measure_update;
          angle'' = (- 1) powi a_value * angle' + of_int theta_value * pi / 4
                      + pi * of_int (r_value + a_N_value)
      in Inr \<lparr>meas_plane = new_plane measure_update, meas_angle = angle''\<rparr>)))))"

definition get_measure_result :: "Client \<Rightarrow> node \<Rightarrow> py_error + bool" where
  "get_measure_result client node =
     Inl (ValueError ''Server cannot have access to measurement results'')"

text \<open>\<open>if self.__client.secret_datas.r\<close> tests that the dictionary is not empty.\<close>

definition set_measure_result :: "Client \<Rightarrow> node \<Rightarrow> int \<Rightarrow> py_error + Client" where
  "set_measure_result client node result =
     (if data_r (secret_datas client) \<noteq> Map.empty then
        (case getitem (data_r (secret_datas client)) node of
           Inl e \<Rightarrow> Inl e
         | Inr r \<Rightarrow> Inr (client\<lparr>results := (results client)(node \<mapsto> result XOR r)\<rparr>))
      else Inr (client\<lparr>results := (results client)(node \<mapsto> result)\<rparr>))"

subsection \<open>Blinding, preparation, decoding\<close>

definition x_blind :: "int \<Rightarrow> single_op" where
  "x_blind a = (if a = 1 then OpX else OpI)"

fun blind_qubits_loop :: "Client \<Rightarrow> node list \<Rightarrow> backend \<Rightarrow> backend" where
  "blind_qubits_loop client [] backend = backend"
| "blind_qubits_loop client (node # nodes) backend =
     (let theta = get_default (data_theta (secret_datas client)) node;
          a = get_default (val_a (data_a (secret_datas client))) node;
          backend' = (if a \<noteq> 0 then backend @ [ApplySingle node (x_blind a)] else backend);
          backend'' = (if theta \<noteq> 0 then backend' @ [ApplySingle node (z_rotation theta)]
                       else backend')
      in blind_qubits_loop client nodes backend'')"

definition blind_qubits :: "Client \<Rightarrow> backend \<Rightarrow> backend" where
  "blind_qubits client backend = blind_qubits_loop client (nodes_list client) backend"

definition prepare_states :: "Client \<Rightarrow> backend \<Rightarrow> backend" where
  "prepare_states client backend =
     (let backend1 = backend @ [AddNodes (input_nodes client) (input_state client)];
          outer_nodes = set (input_nodes client @ output_nodes client);
          aux_nodes = filter (\<lambda>node. node \<notin> outer_nodes) (nodes_list client);
          aux_data = map (\<lambda>_. PLUS) aux_nodes;
          backend2 = backend1 @ [AddNodes aux_nodes aux_data];
          output_data =
            map (\<lambda>node.
                  let r_value = get_default (data_r (secret_datas client)) node;
                      a_N_value = get_default (val_a_N (data_a (secret_datas client))) node
                  in if r_value XOR a_N_value = 0 then PLUS else MINUS)
                (output_nodes client)
      in backend2 @ [AddNodes (output_nodes client) output_data])"

definition decode_output :: "Client \<Rightarrow> node \<Rightarrow> py_error + (int \<times> int)" where
  "decode_output client node =
     (case getitem (byproduct_db client) node of
        Inl e \<Rightarrow> Inl e
      | Inr byproduct \<Rightarrow>
     (case getitems (results client) (z_domain byproduct) of
        Inl e \<Rightarrow> Inl e
      | Inr z_results \<Rightarrow>
     (let z_decoding = sum_list z_results mod 2;
          z_decoding' = z_decoding XOR get_default (data_r (secret_datas client)) node
      in
     (case getitems (results client) (x_domain byproduct) of
        Inl e \<Rightarrow> Inl e
      | Inr x_results \<Rightarrow>
     (let x_decoding = sum_list x_results mod 2;
          x_decoding' = x_decoding XOR get_default (val_a (data_a (secret_datas client))) node
      in Inr (z_decoding', x_decoding'))))))"

fun decode_output_state_loop :: "Client \<Rightarrow> node list \<Rightarrow> backend \<Rightarrow> py_error + backend" where
  "decode_output_state_loop client [] backend = Inr backend"
| "decode_output_state_loop client (node # nodes) backend =
     (case decode_output client node of
        Inl e \<Rightarrow> Inl e
      | Inr (z_decoding, x_decoding) \<Rightarrow>
          (let backend' = (if z_decoding \<noteq> 0 then backend @ [ApplySingle node OpZ]
                           else backend);
               backend'' = (if x_decoding \<noteq> 0 then backend' @ [ApplySingle node OpX]
                            else backend')
           in decode_output_state_loop client nodes backend''))"

definition decode_output_state :: "Client \<Rightarrow> backend \<Rightarrow> py_error + backend" where
  "decode_output_state client backend =
     decode_output_state_loop client (output_nodes client) backend"

subsection \<open>\<open>Client.get_secrets_size\<close>\<close>

text \<open>
  \<open>for secret in self.secret_datas\<close> asks the object for an iterator. A dictionary has
  one; \<open>SecretDatas\<close> and \<open>Secret_a\<close> are plain \<open>@dataclass\<close> classes whose bodies (lines
  53 to 70) define fields only, and the decorator adds no \<open>__iter__\<close> and no
  \<open>__getitem__\<close>. Iterating over, or subscripting, an instance of a class without these
  methods raises \<open>TypeError\<close>.
\<close>

datatype py_class = class_dict | class_SecretDatas | class_Secret_a

fun defines_iter :: "py_class \<Rightarrow> bool" where
  "defines_iter class_dict = True"
| "defines_iter class_SecretDatas = False"
| "defines_iter class_Secret_a = False"

fun defines_getitem :: "py_class \<Rightarrow> bool" where
  "defines_getitem class_dict = True"
| "defines_getitem class_SecretDatas = False"
| "defines_getitem class_Secret_a = False"

definition py_iter :: "py_class \<Rightarrow> 'k list \<Rightarrow> py_error + 'k list" where
  "py_iter cls keys = (if defines_iter cls then Inr keys else Inl TypeError)"

definition py_subscript_len :: "py_class \<Rightarrow> ('k \<rightharpoonup> nat) \<Rightarrow> 'k \<Rightarrow> py_error + nat" where
  "py_subscript_len cls sizes k = (if defines_getitem cls then getitem sizes k else Inl TypeError)"

text \<open>
  The loop body \<open>secrets_size[secret] = len(self.secret_datas[secret])\<close>; \<open>sizes\<close> stands
  for the lengths the subscription would give if the object had any.
\<close>

fun get_secrets_size_loop ::
  "(string \<rightharpoonup> nat) \<Rightarrow> string list \<Rightarrow> (string \<rightharpoonup> nat) \<Rightarrow> py_error + (string \<rightharpoonup> nat)" where
  "get_secrets_size_loop sizes [] secrets_size = Inr secrets_size"
| "get_secrets_size_loop sizes (secret # rest) secrets_size =
     (case py_subscript_len class_SecretDatas sizes secret of
        Inl e \<Rightarrow> Inl e
      | Inr n \<Rightarrow> get_secrets_size_loop sizes rest (secrets_size(secret \<mapsto> n)))"

definition get_secrets_size :: "Client \<Rightarrow> py_error + (string \<rightharpoonup> nat)" where
  "get_secrets_size client =
     (case py_iter class_SecretDatas [''r'', ''a'', ''theta''] of
        Inl e \<Rightarrow> Inl e
      | Inr keys \<Rightarrow> get_secrets_size_loop Map.empty keys Map.empty)"

subsection \<open>Running a pattern\<close>

text \<open>
  Modelled from the spec: \<open>PatternSimulator.run\<close> and \<open>MeasureMethod.measure\<close> belong to
  the external library. Sections 4.3, 4.5, 5 and 6 of the specification fix what they do
  with the client: the commands are processed one at a time in their order; a preparation
  adds the node, an entanglement entangles the two nodes, a measurement asks the measure
  method for the description, measures the node on the backend and hands the raw bit to
  \<open>set_measure_result\<close>; a byproduct correction has to read the outcomes of its domain
  through \<open>get_measure_result\<close>.
\<close>

definition measure_method_measure ::
  "compute \<Rightarrow> outcome_oracle \<Rightarrow> Client \<Rightarrow> backend \<Rightarrow> node \<Rightarrow> py_error + (Client \<times> backend)" where
  "measure_method_measure compute ora client backend node =
     (case get_measurement_description compute client node of
        Inl e \<Rightarrow> Inl e
      | Inr description \<Rightarrow>
          (let backend' = backend @ [Measure node description];
               result = (if ora backend' then 1 else 0)
           in (case set_measure_result client node result of
                 Inl e \<Rightarrow> Inl e
               | Inr client' \<Rightarrow> Inr (client', backend'))))"

definition correct_byproduct ::
  "Client \<Rightarrow> backend \<Rightarrow> node list \<Rightarrow> py_error + (Client \<times> backend)" where
  "correct_byproduct client backend domain =
     (case domain of
        [] \<Rightarrow> Inr (client, backend)
      | j # _ \<Rightarrow>
          (case get_measure_result client j of
             Inl e \<Rightarrow> Inl e
           | Inr _ \<Rightarrow> Inr (client, backend)))"

fun run_command ::
  "compute \<Rightarrow> outcome_oracle \<Rightarrow> command \<Rightarrow> Client \<Rightarrow> backend \<Rightarrow> py_error + (Client \<times> backend)" where
  "run_command compute ora (CmdN n) client backend = Inr (client, backend @ [AddNodes [n] [PLUS]])"
| "run_command compute ora (CmdE n1 n2) client backend = Inr (client, backend @ [Entangle n1 n2])"
| "run_command compute ora (CmdM m) client backend =
     measure_method_measure compute ora client backend (m_node m)"
| "run_command compute ora (CmdBaseM n) client backend =
     measure_method_measure compute ora client backend n"
| "run_command compute ora (CmdX n domain) client backend = correct_byproduct client backend domain"
| "run_command compute ora (CmdZ n domain) client backend = correct_byproduct client backend domain"

fun run_pattern ::
  "compute \<Rightarrow> outcome_oracle \<Rightarrow> command list \<Rightarrow> Client \<Rightarrow> backend \<Rightarrow> py_error + (Client \<times> backend)" where
  "run_pattern compute ora [] client backend = Inr (client, backend)"
| "run_pattern compute ora (cmd # cmds) client backend =
     (case run_command compute ora cmd client backend of
        Inl e \<Rightarrow> Inl e
      | Inr (client', backend') \<Rightarrow> run_pattern compute ora cmds client' backend')"

subsection \<open>\<open>Client.delegate_pattern\<close>\<close>

definition delegate_pattern ::
  "compute \<Rightarrow> outcome_oracle \<Rightarrow> Client \<Rightarrow> backend \<Rightarrow> py_error + (Client \<times> backend)" where
  "delegate_pattern compute ora client backend =
     (let backend1 = prepare_states client backend;
          backend2 = blind_qubits client backend1
      in (case run_pattern compute ora (pat_seq (clean_pattern client)) client backend2 of
            Inl e \<Rightarrow> Inl e
          | Inr (client', backend3) \<Rightarrow>
              (case decode_output_state client' backend3 of
                 Inl e \<Rightarrow> Inl e
               | Inr backend4 \<Rightarrow> Inr (client', backend4))))"

section \<open>\<open>trappifiedCanvas.py\<close>: the canvas\<close>

text \<open>
  The canvas reads three things from its \<open>networkx\<close> graph: \<open>graph.nodes\<close>,
  \<open>len(graph.nodes)\<close> and \<open>graph.neighbors(node)\<close>. The graph is undirected; asking for
  the neighbours of a node that is not in the graph raises \<open>NetworkXError\<close>. A node with
  an edge to itself is its own neighbour. The library keeps both ends of every edge among
  the nodes, so the neighbours are sought among \<open>g_nodes\<close>.
\<close>

record nx_Graph =
  g_nodes :: "node list"
  g_edges :: "(node \<times> node) list"



text \<open>A trap is a set of nodes, listed without repetition in its iteration order.\<close>

type_synonym Trap = "node list"







subsection \<open>Coins\<close>





subsection \<open>States\<close>




subsection \<open>\<open>TrappifiedCanvas.__init__\<close>\<close>

text \<open>
  The attributes of a canvas that are read after construction. The constructor does not
  return when the merging of the stabilizers does not (\<open>None\<close>).
\<close>

record TrappifiedCanvas =
  cv_graph :: nx_Graph
  traps_list :: "Trap list"
  stabilizer :: pauli_string
  coins :: "node \<rightharpoonup> int"
  states :: "BasicStates list"


section \<open>\<open>Client.delegate_test_run\<close>\<close>

text \<open>\<open>graphix.command.M(node=node)\<close>: plane XY, angle 0, empty domains.\<close>

definition default_M :: "node \<Rightarrow> M" where
  "default_M node = \<lparr>m_node = node, m_plane = XY, m_angle = 0, s_domain = [], t_domain = []\<rparr>"

text \<open>\<open>for node in self.measurement_db: self.measurement_db[node] = M(node=node)\<close>.\<close>

definition all_X_measurements :: "(node \<rightharpoonup> M) \<Rightarrow> (node \<rightharpoonup> M)" where
  "all_X_measurements db = (\<lambda>node. map_option (\<lambda>_. default_M node) (db node))"

text \<open>The loop that computes \<open>trap_outcomes\<close>.\<close>

fun trap_outcomes_loop :: "(node \<rightharpoonup> int) \<Rightarrow> Trap list \<Rightarrow> py_error + int list" where
  "trap_outcomes_loop res [] = Inr []"
| "trap_outcomes_loop res (trap # traps) =
     (case getitems res trap of
        Inl e \<Rightarrow> Inl e
      | Inr outcomes \<Rightarrow>
          (case trap_outcomes_loop res traps of
             Inl e \<Rightarrow> Inl e
           | Inr rest \<Rightarrow> Inr (sum_list outcomes mod 2 # rest)))"

definition delegate_test_run ::
  "compute \<Rightarrow> outcome_oracle \<Rightarrow> Client \<Rightarrow> backend \<Rightarrow> TrappifiedCanvas
   \<Rightarrow> py_error + (int list \<times> Client \<times> backend)" where
  "delegate_test_run compute ora client backend run =
     (let preparation_backend = [AddNodes (sort (fst (graph client))) (states run)];
          preparation_backend' = blind_qubits client preparation_backend;
          backend1 = backend @ [AddPrepared (sort (fst (graph client))) preparation_backend'];
          tmp_measurement_db = measurement_db client;
          client1 = client\<lparr>measurement_db := all_X_measurements (measurement_db client)\<rparr>
      in (case run_pattern compute ora (pat_seq (clean_pattern client1)) client1 backend1 of
            Inl e \<Rightarrow> Inl e
          | Inr (client2, backend2) \<Rightarrow>
              (case trap_outcomes_loop (results client2) (traps_list run) of
                 Inl e \<Rightarrow> Inl e
               | Inr trap_outcomes \<Rightarrow>
                   Inr (trap_outcomes,
                        client2\<lparr>measurement_db := tmp_measurement_db\<rparr>, backend2))))"

section \<open>Notions used in the statements\<close>

text \<open>What \<open>remove_flow\<close> does to one command that it keeps.\<close>

definition strip_measure :: "command \<Rightarrow> command" where
  "strip_measure cmd = (if kind cmd = KindM then CmdBaseM (cmd_node cmd) else cmd)"

text \<open>
  The outcomes recorded for the nodes of a domain, and the two decoding bits of the
  specification: the exclusive or of the recorded outcomes over the domain of the node's
  byproduct, and then with the node's secret (\<open>r\<close> for Z, \<open>a\<close> for X; a node without an
  entry has secret 0).
\<close>

definition recorded :: "Client \<Rightarrow> node list \<Rightarrow> int list" where
  "recorded client domain = map (get_default (results client)) domain"

definition z_bit :: "Client \<Rightarrow> node \<Rightarrow> int" where
  "z_bit client node =
     xor_list (recorded client (z_domain (the (byproduct_db client node))))
       XOR get_default (data_r (secret_datas client)) node"

definition x_bit :: "Client \<Rightarrow> node \<Rightarrow> int" where
  "x_bit client node =
     xor_list (recorded client (x_domain (the (byproduct_db client node))))
       XOR get_default (val_a (data_a (secret_datas client))) node"

text \<open>
  An output node can be decoded when it has a byproduct entry, every node of its two
  domains has a recorded outcome that is a bit, and its two secrets are bits.
\<close>

definition decodable :: "Client \<Rightarrow> node \<Rightarrow> bool" where
  "decodable client node =
     (case byproduct_db client node of
        None \<Rightarrow> False
      | Some byproduct \<Rightarrow>
          list_all (\<lambda>j. case results client j of None \<Rightarrow> False | Some v \<Rightarrow> is_bit v)
            (z_domain byproduct @ x_domain byproduct)
          \<and> is_bit (get_default (data_r (secret_datas client)) node)
          \<and> is_bit (get_default (val_a (data_a (secret_datas client))) node))"

text \<open>The corrections the specification asks for at an output node: Z first, then X.\<close>

definition corrections :: "Client \<Rightarrow> node \<Rightarrow> backend_call list" where
  "corrections client node =
     (if z_bit client node = 1 then [ApplySingle node OpZ] else [])
     @ (if x_bit client node = 1 then [ApplySingle node OpX] else [])"

text \<open>
  What \<open>from_secrets\<close> promises for a dictionary of secrets: every value lies in
  \<open>0 ..< high\<close> and is 0 on the nodes of \<open>zero_nodes\<close>.
\<close>

definition secret_ok :: "int \<Rightarrow> node list \<Rightarrow> (node \<rightharpoonup> int) \<Rightarrow> bool" where
  "secret_ok high zero_nodes d =
     (\<forall>n v. d n = Some v \<longrightarrow> 0 \<le> v \<and> v < high \<and> (n \<in> set zero_nodes \<longrightarrow> v = 0))"

text \<open>
  The neighbours of \<open>i\<close> in the graph \<open>(node_list, edge_list)\<close>: the nodes joined to \<open>i\<close> by
  an edge, in either direction.
\<close>

definition neighbours_in :: "(node \<times> node) list \<Rightarrow> node list \<Rightarrow> node \<Rightarrow> node list" where
  "neighbours_in edge_list node_list i =
     filter (\<lambda>j. (i, j) \<in> set edge_list \<or> (j, i) \<in> set edge_list) node_list"



text \<open>
  The nodes a command sequence measures, one entry per measurement command, in order;
  the store after a list of writes; and a client that differs from another one by one
  write per listed node, in order.
\<close>

definition measured_nodes :: "command list \<Rightarrow> node list" where
  "measured_nodes cmds = map cmd_node (filter (\<lambda>c. kind c = KindM) cmds)"

definition record_all :: "(node \<times> int) list \<Rightarrow> (node \<rightharpoonup> int) \<Rightarrow> (node \<rightharpoonup> int)" where
  "record_all writes res = fold (\<lambda>(n, w) r. r(n \<mapsto> w)) writes res"

definition written_by :: "Client \<Rightarrow> Client \<Rightarrow> node list \<Rightarrow> bool" where
  "written_by client client' nodes =
     (\<exists>ws. length ws = length nodes
        \<and> client' = client\<lparr>results := record_all (zip nodes ws) (results client)\<rparr>)"

subsection \<open>A small client\<close>

text \<open>
  The client of the pattern \<open>N 1, N 2, E (0,1), E (1,2), M 0, M 1, X 2 {1}, Z 2 {0}\<close> on the
  path 0 - 1 - 2 with input node 0 and output node 2, after a run in which both
  measurements were recorded as 1. The secrets satisfy the constraints of \<open>from_secrets\<close>.
\<close>

definition example_client :: Client where
  "example_client =
     \<lparr>input_nodes = [0], output_nodes = [2],
      graph = ([0, 1, 2], [(0, 1), (1, 2)]),
      nodes_list = [0, 1, 2],
      results = [0 \<mapsto> 1, 1 \<mapsto> 1],
      measurement_db =
        [0 \<mapsto> \<lparr>m_node = 0, m_plane = XY, m_angle = 1 / 4, s_domain = [], t_domain = []\<rparr>,
         1 \<mapsto> \<lparr>m_node = 1, m_plane = XY, m_angle = 1 / 2, s_domain = [0], t_domain = []\<rparr>],
      byproduct_db = [2 \<mapsto> \<lparr>z_domain = [0], x_domain = [1]\<rparr>],
      secret_datas =
        \<lparr>data_r = [0 \<mapsto> 1, 1 \<mapsto> 0, 2 \<mapsto> 0],
         data_a = \<lparr>val_a = [0 \<mapsto> 0, 1 \<mapsto> 1, 2 \<mapsto> 1],
                   val_a_N = [0 \<mapsto> 1, 1 \<mapsto> 1, 2 \<mapsto> 1]\<rparr>,
         data_theta = [0 \<mapsto> 3, 1 \<mapsto> 5, 2 \<mapsto> 0]\<rparr>,
      clean_pattern =
        \<lparr>pat_input_nodes = [0, 1, 2],
         pat_seq = [CmdE 0 1, CmdE 1 2, CmdBaseM 0, CmdBaseM 1]\<rparr>,
      input_state = [PLUS]\<rparr>"

text \<open>
  An update function of the shape the library has in the XY plane: the signal \<open>s\<close> negates
  the angle, the signal \<open>t\<close> adds \<open>\<pi>\<close>, the plane stays.
\<close>

definition example_compute :: compute where
  "example_compute p s t =
     \<lparr>new_plane = p, coeff = (if s then - 1 else 1), add_term = (if t then pi else 0)\<rparr>"

text \<open>
  The same client before a call, its store holding one entry, for the output node 2, that
  was put there earlier (the constructor fills the store with a copy of
  \<open>pattern.results\<close>, and nothing in the class removes an entry).
\<close>

definition stale_client :: Client where
  "stale_client = example_client\<lparr>results := [2 \<mapsto> 1]\<rparr>"

subsection \<open>A small canvas\<close>

text \<open>
  The canvas of the colour class \<open>{0, 2}\<close> of the path 0 - 1 - 2, as the constructor
  builds it when the coin drawn for the dummy node 1 is 1.
\<close>

definition example_canvas :: TrappifiedCanvas where
  "example_canvas =
     \<lparr>cv_graph = \<lparr>g_nodes = [0, 1, 2], g_edges = [(0, 1), (1, 2)]\<rparr>,
      traps_list = [[0], [2]],
      stabilizer = \<lparr>sign = 1, paulis = [PauliX, PauliZ, PauliX]\<rparr>,
      coins = [0 \<mapsto> 1, 1 \<mapsto> 1, 2 \<mapsto> 1],
      states = [MINUS, ONE, MINUS]\<rparr>"

section \<open>Merging stabilizers\<close>






text \<open>
  The remaining way to be left with incompatible stabilizers is after a merge in the
  same pass of the outer loop. Then the flag is set, \<open>i\<close> no longer advances, and the
  middle loop repeats the same fruitless scan for ever.
\<close>

lemma middle_while_stuck:
  assumes stuck: "inner_while ps True i (i + 1) = Inr (ps, True)"
    and more: "int i < int (length ps) - 1"
  shows "middle_while ps True i = None"
proof (rule ccontr)
  assume "middle_while ps True i \<noteq> None"
  then obtain r where ret: "middle_while ps True i = Some r"
    by auto
  have "ps = ps \<and> True \<and> i = i \<longrightarrow> False"
  proof (rule middle_while.raw_induct
      [where P = "\<lambda>ps' merged i' r'. ps' = ps \<and> merged \<and> i' = i \<longrightarrow> False", OF _ ret])
    fix f pauli_list merged i' r'
    assume IH: "\<And>pauli_list merged i' r'. f pauli_list merged i' = Some r' \<Longrightarrow>
        pauli_list = ps \<and> merged \<and> i' = i \<longrightarrow> False"
      and eq: "(if int i' < int (length pauli_list) - 1 then
        (case inner_while pauli_list merged i' (i' + 1) of
           Inl e \<Rightarrow> Some (Inl e)
         | Inr (pauli_list', merged') \<Rightarrow>
             f pauli_list' merged' (if \<not> merged' then i' + 1 else i'))
      else Some (Inr (pauli_list, merged))) = Some r'"
    show "pauli_list = ps \<and> merged \<and> i' = i \<longrightarrow> False"
    proof
      assume here: "pauli_list = ps \<and> merged \<and> i' = i"
      with eq stuck more have "f ps True i = Some r'"
        by simp
      then show False
        using IH by blast
    qed
  qed
  then show False
    by simp
qed

text \<open>
  This happens for the traps \<open>{0}\<close>, \<open>{1}\<close>, \<open>{2}\<close> on the graph whose only edge joins 1 and
  2: XII and IXZ merge into XXZ, which is incompatible with IZX.
\<close>

lemma merge_pauli_list_diverges:
  "merge_pauli_list
     [\<lparr>sign = 1, paulis = [PauliX, PauliI, PauliI]\<rparr>,
      \<lparr>sign = 1, paulis = [PauliI, PauliX, PauliZ]\<rparr>,
      \<lparr>sign = 1, paulis = [PauliI, PauliZ, PauliX]\<rparr>] = None"
proof -
  let ?m = "[\<lparr>sign = 1, paulis = [PauliX, PauliX, PauliZ]\<rparr>,
      \<lparr>sign = (1::complex), paulis = [PauliI, PauliZ, PauliX]\<rparr>]"
  have "inner_while ?m True 0 (0 + 1) = Inr (?m, True)"
    by (simp add: inner_while.simps common_eigenstate_def pauli_indices_def)
  then have "middle_while ?m True 0 = None"
    by (rule middle_while_stuck) simp
  then have "middle_while
     [\<lparr>sign = 1, paulis = [PauliX, PauliI, PauliI]\<rparr>,
      \<lparr>sign = 1, paulis = [PauliI, PauliX, PauliZ]\<rparr>,
      \<lparr>sign = 1, paulis = [PauliI, PauliZ, PauliX]\<rparr>] False 0 = None"
    by (subst middle_while.simps)
      (simp add: inner_while.simps common_eigenstate_def pauli_indices_def merge_def
        setitem_def del_at_def)
  then show ?thesis
    by (simp add: merge_pauli_list_def outer_while.simps)
qed

section \<open>The measurement path never hands out results\<close>

text \<open>
  C9: for every client and every node, \<open>get_measure_result\<close> raises (a \<open>ValueError\<close> with
  the message that the server cannot have access to measurement results, the error the
  specification calls ForbiddenQuery) and so never returns a result.
\<close>

theorem get_measure_result_forbidden:
  "get_measure_result client node
     = Inl (ValueError ''Server cannot have access to measurement results'')
   \<and> (\<forall>result. get_measure_result client node \<noteq> Inr result)"
  by (simp add: get_measure_result_def)

section \<open>The size of the secrets\<close>

text \<open>
  C10: for every client, \<open>get_secrets_size\<close> raises \<open>TypeError\<close> and returns no size map:
  its loop iterates over the \<open>SecretDatas\<close> instance, whose class defines no iteration.
\<close>

theorem get_secrets_size_raises:
  "get_secrets_size client = Inl TypeError \<and> (\<forall>sizes. get_secrets_size client \<noteq> Inr sizes)"
  by (simp add: get_secrets_size_def py_iter_def)

section \<open>Bits\<close>

lemma is_bit_xor: "is_bit a \<Longrightarrow> is_bit b \<Longrightarrow> is_bit (a XOR b)"
  by (auto simp: is_bit_def)

lemma is_bit_xor_list: "\<forall>v\<in>set vs. is_bit v \<Longrightarrow> is_bit (xor_list vs)"
  by (induction vs) (auto simp: xor_list_def is_bit_def)

text \<open>On bits, the source's \<open>sum(...) % 2\<close> is the exclusive or of the specification.\<close>

lemma sum_list_mod_2_xor_list:
  "\<forall>v\<in>set vs. is_bit v \<Longrightarrow> sum_list vs mod 2 = xor_list vs"
proof (induction vs)
  case Nil
  then show ?case
    by (simp add: xor_list_def)
next
  case (Cons v vs)
  then have IH: "sum_list vs mod 2 = xor_list vs" and v: "is_bit v"
    and b: "is_bit (xor_list vs)"
    by (simp_all add: is_bit_xor_list)
  have "(v + sum_list vs) mod 2 = (v + sum_list vs mod 2) mod 2"
    by (simp add: mod_add_right_eq)
  also have "\<dots> = (v + xor_list vs) mod 2"
    by (simp add: IH)
  also have "\<dots> = v XOR xor_list vs"
    using v b by (auto simp: is_bit_def)
  finally show ?case
    by (simp add: xor_list_def)
qed

lemma list_all_recorded:
  assumes "list_all (\<lambda>j. case d j of None \<Rightarrow> False | Some v \<Rightarrow> is_bit v) ks"
  shows "getitems d ks = Inr (map (get_default d) ks)"
    and "\<forall>v\<in>set (map (get_default d) ks). is_bit v"
  using assms
  by (induction ks) (auto simp: getitem_def get_default_def split: option.splits)

section \<open>The clean pattern\<close>

lemma remove_flow_loop_eq:
  "remove_flow_loop cmds clean
     = clean @ map strip_measure (filter (\<lambda>c. kind c \<notin> {KindX, KindZ}) cmds)"
  by (induction cmds arbitrary: clean) (simp_all add: strip_measure_def Let_def)



text \<open>
  \<open>remove_flow\<close> alone does what C5 says: it drops the X and Z commands, strips every
  measurement and keeps everything else, in order.
\<close>

lemma remove_flow_commands:
  "pat_seq (remove_flow pattern)
     = map strip_measure (filter (\<lambda>c. kind c \<notin> {KindX, KindZ}) (pat_seq pattern))"
  by (simp add: remove_flow_def remove_flow_loop_eq)






section \<open>Decoding the output\<close>

lemma decode_output_bits:
  assumes "decodable client node"
  shows "decode_output client node = Inr (z_bit client node, x_bit client node)"
    and "is_bit (z_bit client node)" and "is_bit (x_bit client node)"
proof -
  from assms obtain bp where bp: "byproduct_db client node = Some bp"
    and everything: "list_all (\<lambda>j. case results client j of None \<Rightarrow> False | Some v \<Rightarrow> is_bit v)
            (z_domain bp @ x_domain bp)"
    and r: "is_bit (get_default (data_r (secret_datas client)) node)"
    and a: "is_bit (get_default (val_a (data_a (secret_datas client))) node)"
    by (auto simp: decodable_def split: option.splits)
  from everything
  have z: "list_all (\<lambda>j. case results client j of None \<Rightarrow> False | Some v \<Rightarrow> is_bit v)
             (z_domain bp)"
    and x: "list_all (\<lambda>j. case results client j of None \<Rightarrow> False | Some v \<Rightarrow> is_bit v)
             (x_domain bp)"
    by simp_all
  note zr = list_all_recorded [OF z] and xr = list_all_recorded [OF x]
  show "decode_output client node = Inr (z_bit client node, x_bit client node)"
    using bp zr xr
    by (simp add: decode_output_def getitem_def z_bit_def x_bit_def recorded_def
        sum_list_mod_2_xor_list)
  show "is_bit (z_bit client node)"
    using bp zr(2) r by (simp add: z_bit_def recorded_def is_bit_xor is_bit_xor_list)
  show "is_bit (x_bit client node)"
    using bp xr(2) a by (simp add: x_bit_def recorded_def is_bit_xor is_bit_xor_list)
qed

lemma decode_output_state_loop_calls:
  "\<forall>node\<in>set nodes. decodable client node \<Longrightarrow>
   decode_output_state_loop client nodes backend
     = Inr (backend @ concat (map (corrections client) nodes))"
proof (induction nodes arbitrary: backend)
  case Nil
  then show ?case
    by simp
next
  case (Cons node nodes)
  then have d: "decodable client node"
    by simp
  note dec = decode_output_bits [OF d]
  have z: "z_bit client node \<noteq> 0 \<longleftrightarrow> z_bit client node = 1"
    using dec(2) by (auto simp: is_bit_def)
  have x: "x_bit client node \<noteq> 0 \<longleftrightarrow> x_bit client node = 1"
    using dec(3) by (auto simp: is_bit_def)
  from Cons show ?case
    by (simp add: dec(1) z x corrections_def)
qed

text \<open>
  C6: when every output node can be decoded, \<open>decode_output\<close> returns for each of them the
  pair of \<open>z_bit\<close> (the exclusive or of the recorded results over the node's \<open>z_domain\<close>
  and of \<open>r(node)\<close>) and \<open>x_bit\<close> (the same with \<open>x_domain\<close> and \<open>a(node)\<close>), and
  \<open>decode_output_state\<close> makes, node after node, exactly the calls \<open>corrections\<close>: a Z
  correction iff \<open>z_bit = 1\<close>, then an X correction iff \<open>x_bit = 1\<close>.
\<close>

theorem decode_output_state_corrections:
  assumes "\<forall>node\<in>set (output_nodes client). decodable client node"
  shows "(\<forall>node\<in>set (output_nodes client).
            decode_output client node = Inr (z_bit client node, x_bit client node))
         \<and> decode_output_state client backend
             = Inr (backend @ concat (map (corrections client) (output_nodes client)))"
  using assms
  by (simp add: decode_output_state_def decode_output_state_loop_calls decode_output_bits(1))

text \<open>
  At the small client: outcomes 1 and 1, \<open>r(2) = 0\<close> and \<open>a(2) = 1\<close> give \<open>z_bit = 1\<close> and
  \<open>x_bit = 0\<close>, so the decoder applies Z to node 2 and nothing else.
\<close>

theorem decode_output_state_corrections_witness:
  "decodable example_client 2
   \<and> decode_output example_client 2 = Inr (1, 0)
   \<and> decode_output_state example_client [] = Inr [ApplySingle 2 OpZ]"
proof -
  have d: "decodable example_client 2"
    by (simp add: decodable_def example_client_def is_bit_def get_default_def)
  then have "\<forall>node\<in>set (output_nodes example_client). decodable example_client node"
    by (simp add: example_client_def)
  from decode_output_state_corrections [OF this, of "[]"] d show ?thesis
    by (simp add: example_client_def z_bit_def x_bit_def corrections_def recorded_def
        xor_list_def get_default_def)
qed

section \<open>The measurement description\<close>

text \<open>
  C4: for a node with an entry in the measurement table whose two domains have recorded
  results, the description handed to the executor has the updated plane and the angle
  \<open>(-1)^a(node) * corrected_angle + theta(node) * \<pi> / 4 + \<pi> * (r(node) + a_N(node))\<close>,
  where \<open>corrected_angle\<close> is the base angle of the pattern (in units of \<open>\<pi>\<close>) times the
  coefficient plus the additive term of the update that the plane and the parities \<open>s\<close>
  and \<open>t\<close> of the recorded results over \<open>s_domain\<close> and \<open>t_domain\<close> determine.
\<close>

theorem get_measurement_description_angle:
  assumes "measurement_db client node = Some parameters"
    and "getitems (results client) (s_domain parameters) = Inr s_results"
    and "getitems (results client) (t_domain parameters) = Inr t_results"
  shows "get_measurement_description compute client node =
     (let measure_update =
            compute (m_plane parameters) (odd (sum_list s_results)) (odd (sum_list t_results));
          corrected_angle =
            m_angle parameters * pi * of_int (coeff measure_update) + add_term measure_update
      in Inr \<lparr>meas_plane = new_plane measure_update,
              meas_angle =
                (- 1) powi get_default (val_a (data_a (secret_datas client))) node
                  * corrected_angle
                + of_int (get_default (data_theta (secret_datas client)) node) * pi / 4
                + pi * of_int (get_default (data_r (secret_datas client)) node
                                + get_default (val_a_N (data_a (secret_datas client))) node)\<rparr>)"
  using assms
  by (simp add: get_measurement_description_def getitem_def Let_def odd_iff_mod_2_eq_one)

text \<open>
  At node 1 of the small client: base angle \<open>\<pi>/2\<close>, \<open>s = 1\<close> negates it, \<open>a = 1\<close> negates it
  again, \<open>theta = 5\<close> and \<open>r + a_N = 1\<close>.
\<close>

theorem get_measurement_description_angle_witness:
  "get_measurement_description example_compute example_client 1
     = Inr \<lparr>meas_plane = XY, meas_angle = pi / 2 + 5 * pi / 4 + pi\<rparr>"
  using get_measurement_description_angle
    [of example_client 1
        "\<lparr>m_node = 1, m_plane = XY, m_angle = 1 / 2, s_domain = [0], t_domain = []\<rparr>"
        "[1]" "[]" example_compute]
  by (simp add: example_client_def example_compute_def getitem_def get_default_def)

section \<open>Secrets\<close>

lemma np_randint_range:
  "0 < high \<Longrightarrow> np_randint 0 high g = (v, g') \<Longrightarrow> 0 \<le> v \<and> v < high"
  by (auto simp: np_randint_def)

lemma draw_secrets_ok:
  "0 < high \<Longrightarrow> secret_ok high zs d \<Longrightarrow> secret_ok high zs (fst (draw_secrets high ns zs d g))"
proof (induction ns arbitrary: d g)
  case Nil
  then show ?case by simp
next
  case (Cons n ns)
  show ?case
  proof (cases "n \<in> set zs")
    case True
    then have step: "draw_secrets high (n # ns) zs d g = draw_secrets high ns zs (d(n \<mapsto> 0)) g"
      by simp
    from Cons.prems have "secret_ok high zs (d(n \<mapsto> 0))"
      by (auto simp: secret_ok_def)
    with Cons.prems(1) have "secret_ok high zs (fst (draw_secrets high ns zs (d(n \<mapsto> 0)) g))"
      by (rule Cons.IH)
    with step show ?thesis by (simp only:)
  next
    case False
    obtain v g' where vg: "np_randint 0 high g = (v, g')" by (cases "np_randint 0 high g")
    with False have step: "draw_secrets high (n # ns) zs d g = draw_secrets high ns zs (d(n \<mapsto> v)) g'"
      by simp
    from Cons.prems(1) vg have "0 \<le> v \<and> v < high" by (rule np_randint_range)
    with Cons.prems False have "secret_ok high zs (d(n \<mapsto> v))"
      by (auto simp: secret_ok_def)
    with Cons.prems(1) have "secret_ok high zs (fst (draw_secrets high ns zs (d(n \<mapsto> v)) g'))"
      by (rule Cons.IH)
    with step show ?thesis by (simp only:)
  qed
qed

lemma draw_secrets_dom:
  "dom (fst (draw_secrets high ns zs d g)) = dom d \<union> set ns"
proof (induction ns arbitrary: d g)
  case Nil
  then show ?case by simp
next
  case (Cons n ns)
  show ?case
  proof (cases "n \<in> set zs")
    case True
    then have step: "draw_secrets high (n # ns) zs d g = draw_secrets high ns zs (d(n \<mapsto> 0)) g"
      by simp
    have "dom (fst (draw_secrets high ns zs (d(n \<mapsto> 0)) g)) = dom (d(n \<mapsto> 0)) \<union> set ns"
      by (rule Cons.IH)
    also have "\<dots> = dom d \<union> set (n # ns)" by auto
    finally show ?thesis by (simp only: step)
  next
    case False
    obtain v g' where vg: "np_randint 0 high g = (v, g')" by (cases "np_randint 0 high g")
    with False have step: "draw_secrets high (n # ns) zs d g = draw_secrets high ns zs (d(n \<mapsto> v)) g'"
      by simp
    have "dom (fst (draw_secrets high ns zs (d(n \<mapsto> v)) g')) = dom (d(n \<mapsto> v)) \<union> set ns"
      by (rule Cons.IH)
    also have "\<dots> = dom d \<union> set (n # ns)" by auto
    finally show ?thesis by (simp only: step)
  qed
qed

lemma xor_list_Cons: "xor_list (v # vs) = v XOR xor_list vs"
  by (simp add: xor_list_def)

lemma a_N_inner_eq:
  "set js \<subseteq> dom a \<Longrightarrow>
   a_N_inner edge_list a i js acc
     = Inr (acc XOR xor_list (map (get_default a) (neighbours_in edge_list js i)))"
proof (induction js arbitrary: acc)
  case Nil
  then show ?case by (simp add: neighbours_in_def xor_list_def)
next
  case (Cons j js)
  then obtain v where v: "a j = Some v" by auto
  from Cons have IH: "\<And>acc. a_N_inner edge_list a i js acc
     = Inr (acc XOR xor_list (map (get_default a) (neighbours_in edge_list js i)))"
    by simp
  from v have gd: "get_default a j = v"
    by (simp add: get_default_def)
  show ?case
    using v gd by (simp add: IH getitem_def neighbours_in_def xor_list_Cons xor.assoc)
qed

lemma a_N_outer_eq:
  assumes "set node_list \<subseteq> dom a"
  shows "\<exists>a_N'. a_N_outer edge_list a node_list is a_N = Inr a_N'
     \<and> dom a_N' = dom a_N \<union> set is
     \<and> (\<forall>i\<in>set is. a_N' i = Some (xor_list (map (get_default a) (neighbours_in edge_list node_list i))))
     \<and> (\<forall>i. i \<notin> set is \<longrightarrow> a_N' i = a_N i)"
proof (induction "is" arbitrary: a_N)
  case Nil
  then show ?case by simp
next
  case (Cons i "is")
  let ?v = "xor_list (map (get_default a) (neighbours_in edge_list node_list i))"
  have inner: "a_N_inner edge_list a i node_list 0 = Inr ?v"
    using a_N_inner_eq [OF assms, of edge_list i 0] by simp
  from Cons [of "a_N(i \<mapsto> ?v)"] obtain a_N' where
    r: "a_N_outer edge_list a node_list is (a_N(i \<mapsto> ?v)) = Inr a_N'"
    and d: "dom a_N' = dom (a_N(i \<mapsto> ?v)) \<union> set is"
    and v: "\<forall>k\<in>set is. a_N' k = Some (xor_list (map (get_default a) (neighbours_in edge_list node_list k)))"
    and f: "\<forall>k. k \<notin> set is \<longrightarrow> a_N' k = (a_N(i \<mapsto> ?v)) k"
    by blast
  have "a_N_outer edge_list a node_list (i # is) a_N = Inr a_N'"
    using inner r by simp
  moreover have "dom a_N' = dom a_N \<union> set (i # is)"
    using d by auto
  moreover have "\<forall>k\<in>set (i # is). a_N' k = Some (xor_list (map (get_default a) (neighbours_in edge_list node_list k)))"
    using v f by (cases "i \<in> set is") auto
  moreover have "\<forall>k. k \<notin> set (i # is) \<longrightarrow> a_N' k = a_N k"
    using f by auto
  ultimately show ?case by blast
qed


lemma draw_secrets_at:
  assumes "0 < high" and "n \<in> set ns" and "draw_secrets high ns zs Map.empty g = (d, g')"
  shows "\<exists>v. d n = Some v \<and> 0 \<le> v \<and> v < high \<and> (n \<in> set zs \<longrightarrow> v = 0)"
proof -
  have "dom (fst (draw_secrets high ns zs Map.empty g)) = set ns"
    by (simp add: draw_secrets_dom)
  with assms(2,3) obtain v where v: "d n = Some v"
    by auto
  have "secret_ok high zs Map.empty"
    by (simp add: secret_ok_def)
  with assms(1) have "secret_ok high zs (fst (draw_secrets high ns zs Map.empty g))"
    by (rule draw_secrets_ok)
  with assms(3) v show ?thesis
    by (auto simp: secret_ok_def)
qed

lemma get_default_empty: "get_default Map.empty n = 0"
  by (simp add: get_default_def)

text \<open>
  C8: for every graph, node sets, flags and generator, \<open>from_secrets\<close> returns, and at
  every node of the graph: when \<open>r\<close> is enabled, \<open>r(node)\<close> is a bit and is 0 on an
  output node; when \<open>theta\<close> is enabled, \<open>theta(node)\<close> lies in 0..7 and is 0 on an output
  node; when \<open>a\<close> is enabled, \<open>a(node)\<close> is a bit and is 0 on an input node, \<open>a\<close> has a
  value at every node of the graph, and \<open>a_N(node)\<close> is the exclusive or of those values
  over the neighbours of the node. The dictionary of a disabled flag is empty, so that
  the value read for any node (\<open>.get(node, 0)\<close>) is 0.
\<close>

theorem from_secrets_spec:
  assumes "node \<in> set (fst G)"
  shows "\<exists>sd g'. from_secrets secrets G ins outs g = Inr (sd, g')
     \<and> (use_r secrets \<longrightarrow>
          (\<exists>v. data_r sd node = Some v \<and> is_bit v \<and> (node \<in> set outs \<longrightarrow> v = 0)))
     \<and> (use_theta secrets \<longrightarrow>
          (\<exists>v. data_theta sd node = Some v \<and> 0 \<le> v \<and> v \<le> 7 \<and> (node \<in> set outs \<longrightarrow> v = 0)))
     \<and> (use_a secrets \<longrightarrow>
          (\<exists>v. val_a (data_a sd) node = Some v \<and> is_bit v \<and> (node \<in> set ins \<longrightarrow> v = 0))
          \<and> dom (val_a (data_a sd)) = set (fst G)
          \<and> val_a_N (data_a sd) node
              = Some (xor_list (map (get_default (val_a (data_a sd)))
                                  (neighbours_in (snd G) (fst G) node))))
     \<and> (\<not> use_r secrets \<longrightarrow> data_r sd = Map.empty \<and> (\<forall>n. get_default (data_r sd) n = 0))
     \<and> (\<not> use_theta secrets \<longrightarrow>
          data_theta sd = Map.empty \<and> (\<forall>n. get_default (data_theta sd) n = 0))
     \<and> (\<not> use_a secrets \<longrightarrow>
          val_a (data_a sd) = Map.empty \<and> val_a_N (data_a sd) = Map.empty
          \<and> (\<forall>n. get_default (val_a (data_a sd)) n = 0)
          \<and> (\<forall>n. get_default (val_a_N (data_a sd)) n = 0))"
proof -
  obtain node_list edge_list where gr: "G = (node_list, edge_list)"
    by (cases G)
  with assms have node: "node \<in> set node_list"
    by simp
  obtain r g1 where r: "(if use_r secrets then draw_secrets 2 node_list outs Map.empty g
             else (Map.empty, g)) = (r, g1)"
    by (cases "if use_r secrets then draw_secrets 2 node_list outs Map.empty g
             else (Map.empty, g)")
  obtain theta g2 where theta: "(if use_theta secrets then draw_secrets 8 node_list outs Map.empty g1
             else (Map.empty, g1)) = (theta, g2)"
    by (cases "if use_theta secrets then draw_secrets 8 node_list outs Map.empty g1
             else (Map.empty, g1)")
  obtain a g3 where a: "(if use_a secrets then draw_secrets 2 node_list ins Map.empty g2
             else (Map.empty, g2)) = (a, g3)"
    by (cases "if use_a secrets then draw_secrets 2 node_list ins Map.empty g2
             else (Map.empty, g2)")
  have dom_a: "use_a secrets \<Longrightarrow> dom a = set node_list"
    using a draw_secrets_dom [of 2 node_list ins Map.empty g2] by (simp split: if_splits)
  obtain a_N where a_N: "(if use_a secrets then a_N_outer edge_list a node_list node_list Map.empty
             else Inr Map.empty) = Inr a_N"
    and a_N_val: "use_a secrets \<Longrightarrow>
       a_N node = Some (xor_list (map (get_default a) (neighbours_in edge_list node_list node)))"
    and a_N_empty: "\<not> use_a secrets \<Longrightarrow> a_N = Map.empty"
  proof (cases "use_a secrets")
    case True
    then have "set node_list \<subseteq> dom a"
      using dom_a by simp
    from a_N_outer_eq [OF this, of edge_list node_list Map.empty] node True
    show ?thesis
      by (auto intro: that)
  next
    case False
    then show ?thesis
      by (auto intro: that)
  qed
  let ?sd = "\<lparr>data_r = r, data_a = \<lparr>val_a = a, val_a_N = a_N\<rparr>, data_theta = theta\<rparr>"
  have res: "from_secrets secrets G ins outs g = Inr (?sd, g3)"
    by (simp only: from_secrets_def gr r theta a a_N prod.case sum.case)
  have P_r: "use_r secrets \<longrightarrow>
          (\<exists>v. r node = Some v \<and> is_bit v \<and> (node \<in> set outs \<longrightarrow> v = 0))"
  proof
    assume "use_r secrets"
    with r have "draw_secrets 2 node_list outs Map.empty g = (r, g1)"
      by simp
    from draw_secrets_at [OF _ node this] show
      "\<exists>v. r node = Some v \<and> is_bit v \<and> (node \<in> set outs \<longrightarrow> v = 0)"
      by (auto simp: is_bit_def)
  qed
  have P_theta: "use_theta secrets \<longrightarrow>
          (\<exists>v. theta node = Some v \<and> 0 \<le> v \<and> v \<le> 7 \<and> (node \<in> set outs \<longrightarrow> v = 0))"
  proof
    assume "use_theta secrets"
    with theta have "draw_secrets 8 node_list outs Map.empty g1 = (theta, g2)"
      by simp
    from draw_secrets_at [OF _ node this] show
      "\<exists>v. theta node = Some v \<and> 0 \<le> v \<and> v \<le> 7 \<and> (node \<in> set outs \<longrightarrow> v = 0)"
      by auto
  qed
  have P_a: "use_a secrets \<longrightarrow>
          (\<exists>v. a node = Some v \<and> is_bit v \<and> (node \<in> set ins \<longrightarrow> v = 0))"
  proof
    assume "use_a secrets"
    with a have "draw_secrets 2 node_list ins Map.empty g2 = (a, g3)"
      by simp
    from draw_secrets_at [OF _ node this] show
      "\<exists>v. a node = Some v \<and> is_bit v \<and> (node \<in> set ins \<longrightarrow> v = 0)"
      by (auto simp: is_bit_def)
  qed
  have N_r: "\<not> use_r secrets \<longrightarrow> r = Map.empty"
    using r by auto
  have N_theta: "\<not> use_theta secrets \<longrightarrow> theta = Map.empty"
    using theta by auto
  have N_a: "\<not> use_a secrets \<longrightarrow> a = Map.empty"
    using a by auto
  show ?thesis
    apply (rule exI [of _ ?sd])
    apply (rule exI [of _ g3])
    using res P_r P_theta P_a N_r N_theta N_a a_N_val a_N_empty dom_a gr
    by (auto simp: get_default_empty)
qed

text \<open>
  On the path 0 - 1 - 2 with input 0 and output 2, all flags enabled and the generator
  that yields 0, 1, 2, \<dots>: the draws are \<open>r(0) = 0\<close>, \<open>r(1) = 1\<close>, \<open>theta(0) = 2\<close>,
  \<open>theta(1) = 3\<close>, \<open>a(1) = 0\<close>, \<open>a(2) = 1\<close>, and \<open>a_N(1) = a(0) XOR a(2) = 1\<close>.
\<close>

theorem from_secrets_spec_witness:
  "\<exists>sd g'. from_secrets \<lparr>use_r = True, use_a = True, use_theta = True\<rparr>
              ([0, 1, 2], [(0, 1), (1, 2)]) [0] [2] \<lparr>raw = (\<lambda>k. k), pos = 0\<rparr> = Inr (sd, g')
     \<and> data_r sd 1 = Some 1 \<and> data_theta sd 1 = Some 3
     \<and> val_a (data_a sd) 0 = Some 0 \<and> val_a (data_a sd) 1 = Some 0 \<and> val_a (data_a sd) 2 = Some 1
     \<and> val_a_N (data_a sd) 1 = Some 1"
proof -
  let ?S = "\<lparr>use_r = True, use_a = True, use_theta = True\<rparr>"
  let ?G = "([0, 1, 2], [(0, 1), (1, 2)]) :: graph"
  let ?g = "\<lparr>raw = (\<lambda>k. k), pos = 0\<rparr>"
  have h: "1 \<in> set (fst ?G)"
    by simp
  from from_secrets_spec [OF h, of ?S "[0]" "[2]" ?g]
  obtain sd g' where res: "from_secrets ?S ?G [0] [2] ?g = Inr (sd, g')"
    and aN: "val_a_N (data_a sd) 1
              = Some (xor_list (map (get_default (val_a (data_a sd))) (neighbours_in (snd ?G) (fst ?G) 1)))"
    by auto
  from res have r: "data_r sd 1 = Some 1" and t: "data_theta sd 1 = Some 3"
    and a: "val_a (data_a sd) 0 = Some 0" "val_a (data_a sd) 1 = Some 0" "val_a (data_a sd) 2 = Some 1"
    by (auto simp: from_secrets_def np_randint_def getitem_def)
  from aN a have "val_a_N (data_a sd) 1 = Some 1"
    by (simp add: neighbours_in_def xor_list_def get_default_def)
  with res r t a show ?thesis
    by blast
qed


section \<open>Coins\<close>











section \<open>The store of results across runs\<close>

lemma set_measure_result_frame:
  assumes "set_measure_result client node v = Inr client'"
  shows "\<exists>w. client' = client\<lparr>results := (results client)(node \<mapsto> w)\<rparr>"
  using assms by (auto simp: set_measure_result_def split: if_splits sum.splits)

lemma measure_method_measure_frame:
  assumes "measure_method_measure compute ora client backend node = Inr (client', backend')"
  shows "\<exists>w. client' = client\<lparr>results := (results client)(node \<mapsto> w)\<rparr>"
  using assms
  by (auto simp: measure_method_measure_def Let_def split: sum.splits
      dest: set_measure_result_frame)

lemma record_all_frame:
  "n \<notin> fst ` set writes \<Longrightarrow> record_all writes res n = res n"
  unfolding record_all_def by (induction writes arbitrary: res) auto

lemma record_all_dom:
  "dom (record_all writes res) = dom res \<union> fst ` set writes"
  unfolding record_all_def by (induction writes arbitrary: res) auto

lemma written_by_refl: "written_by client client []"
  by (simp add: written_by_def record_all_def)

lemma written_by_write:
  "written_by client (client\<lparr>results := (results client)(node \<mapsto> w)\<rparr>) [node]"
  unfolding written_by_def by (rule exI [of _ "[w]"]) (simp add: record_all_def)

lemma written_by_trans:
  assumes "written_by c1 c2 w1" and "written_by c2 c3 w2"
  shows "written_by c1 c3 (w1 @ w2)"
proof -
  from assms(1) obtain ws1 where l1: "length ws1 = length w1"
    and c2: "c2 = c1\<lparr>results := record_all (zip w1 ws1) (results c1)\<rparr>"
    by (auto simp: written_by_def)
  from assms(2) obtain ws2 where l2: "length ws2 = length w2"
    and c3: "c3 = c2\<lparr>results := record_all (zip w2 ws2) (results c2)\<rparr>"
    by (auto simp: written_by_def)
  have "length (ws1 @ ws2) = length (w1 @ w2)"
    using l1 l2 by simp
  moreover have "c3 = c1\<lparr>results := record_all (zip (w1 @ w2) (ws1 @ ws2)) (results c1)\<rparr>"
    using l1 by (simp add: c3 c2 record_all_def)
  ultimately show ?thesis
    unfolding written_by_def by blast
qed

lemma run_command_writes:
  assumes "run_command compute ora cmd client backend = Inr (client', backend')"
  shows "written_by client client' (measured_nodes [cmd])"
proof (cases cmd)
  case (CmdN n)
  with assms show ?thesis
    by (auto simp: measured_nodes_def written_by_refl)
next
  case (CmdE n1 n2)
  with assms show ?thesis
    by (auto simp: measured_nodes_def written_by_refl)
next
  case (CmdM m)
  with assms measure_method_measure_frame [of compute ora client backend "m_node m" client' backend']
  obtain w where "client' = client\<lparr>results := (results client)(m_node m \<mapsto> w)\<rparr>"
    by auto
  with CmdM show ?thesis
    by (simp add: measured_nodes_def written_by_write)
next
  case (CmdX n domain)
  with assms show ?thesis
    by (auto simp: measured_nodes_def written_by_refl correct_byproduct_def
        get_measure_result_def split: list.splits)
next
  case (CmdZ n domain)
  with assms show ?thesis
    by (auto simp: measured_nodes_def written_by_refl correct_byproduct_def
        get_measure_result_def split: list.splits)
next
  case (CmdBaseM n)
  with assms measure_method_measure_frame [of compute ora client backend n client' backend']
  obtain w where "client' = client\<lparr>results := (results client)(n \<mapsto> w)\<rparr>"
    by auto
  with CmdBaseM show ?thesis
    by (simp add: measured_nodes_def written_by_write)
qed

lemma run_pattern_writes:
  "run_pattern compute ora cmds client backend = Inr (client', backend') \<Longrightarrow>
   written_by client client' (measured_nodes cmds)"
proof (induction cmds arbitrary: client backend)
  case Nil
  then show ?case
    by (auto simp: written_by_refl measured_nodes_def)
next
  case (Cons cmd cmds)
  from Cons.prems obtain c1 b1 where one: "run_command compute ora cmd client backend = Inr (c1, b1)"
    and rest: "run_pattern compute ora cmds c1 b1 = Inr (client', backend')"
    by (auto split: sum.splits)
  from one have "written_by client c1 (measured_nodes [cmd])"
    by (rule run_command_writes)
  moreover from rest have "written_by c1 client' (measured_nodes cmds)"
    by (rule Cons.IH)
  ultimately have "written_by client client' (measured_nodes [cmd] @ measured_nodes cmds)"
    by (rule written_by_trans)
  moreover have "measured_nodes [cmd] @ measured_nodes cmds = measured_nodes (cmd # cmds)"
    by (simp add: measured_nodes_def)
  ultimately show ?case
    by (simp only:)
qed

lemma written_by_results:
  assumes "written_by client client' nodes"
  shows "(\<exists>ws. length ws = length nodes
            \<and> results client' = record_all (zip nodes ws) (results client))
         \<and> (\<forall>n. n \<notin> set nodes \<longrightarrow> results client' n = results client n)"
proof -
  from assms obtain ws where l: "length ws = length nodes"
    and c: "client' = client\<lparr>results := record_all (zip nodes ws) (results client)\<rparr>"
    by (auto simp: written_by_def)
  from c have r: "results client' = record_all (zip nodes ws) (results client)"
    by simp
  have "\<forall>n. n \<notin> set nodes \<longrightarrow> results client' n = results client n"
  proof (intro allI impI)
    fix n assume "n \<notin> set nodes"
    with l have "n \<notin> fst ` set (zip nodes ws)"
      by (auto dest: set_zip_leftD)
    then show "results client' n = results client n"
      by (simp add: r record_all_frame)
  qed
  with l r show ?thesis
    by blast
qed

text \<open>
  C3, as stated: each of the two calls starts by emptying the store, so that nothing
  recorded earlier is visible in the run. Neither function touches the store before the
  pattern runs. The store of the client below holds the entry \<open>2 \<mapsto> 1\<close> before the call;
  the clean pattern does not measure node 2; after \<open>delegate_pattern\<close> the entry is still
  there, and \<open>delegate_test_run\<close> computes the parity of the trap \<open>{2}\<close> from it.
\<close>

theorem results_survive_delegation:
  "results stale_client 2 = Some 1
   \<and> 2 \<notin> set (measured_nodes (pat_seq (clean_pattern stale_client)))
   \<and> (\<exists>client' backend'.
         delegate_pattern example_compute (\<lambda>calls. True) stale_client [] = Inr (client', backend')
         \<and> results client' 2 = Some 1)
   \<and> (\<exists>client' backend'.
         delegate_test_run example_compute (\<lambda>calls. True) stale_client [] example_canvas
           = Inr ([0, 1], client', backend')
         \<and> results client' 2 = Some 1)"
  by (simp add: stale_client_def example_client_def example_canvas_def measured_nodes_def
      delegate_pattern_def delegate_test_run_def prepare_states_def blind_qubits_def
      measure_method_measure_def get_measurement_description_def set_measure_result_def
      decode_output_state_def decode_output_def getitem_def get_default_def
      all_X_measurements_def default_M_def example_compute_def x_blind_def Let_def)

text \<open>
  C3, amended: neither \<open>delegate_pattern\<close> nor \<open>delegate_test_run\<close> resets the store. A
  call that returns leaves the store it found with one write per measurement command of
  the clean pattern, in order, at the node of the command; the entry of every node that
  the clean pattern does not measure is what it was before the call, and the trap
  parities of a test run are computed from the store in that state.
\<close>

theorem results_not_reset:
  "(delegate_pattern compute ora client backend = Inr (client', backend') \<longrightarrow>
      (\<exists>ws. length ws = length (measured_nodes (pat_seq (clean_pattern client)))
         \<and> results client'
             = record_all (zip (measured_nodes (pat_seq (clean_pattern client))) ws)
                 (results client))
      \<and> (\<forall>n. n \<notin> set (measured_nodes (pat_seq (clean_pattern client)))
             \<longrightarrow> results client' n = results client n))
   \<and> (delegate_test_run compute ora client backend run
        = Inr (trap_outcomes, client'', backend'') \<longrightarrow>
      (\<exists>ws. length ws = length (measured_nodes (pat_seq (clean_pattern client)))
         \<and> results client''
             = record_all (zip (measured_nodes (pat_seq (clean_pattern client))) ws)
                 (results client))
      \<and> (\<forall>n. n \<notin> set (measured_nodes (pat_seq (clean_pattern client)))
             \<longrightarrow> results client'' n = results client n)
      \<and> trap_outcomes_loop (results client'') (traps_list run) = Inr trap_outcomes)"
proof (intro conjI impI)
  assume "delegate_pattern compute ora client backend = Inr (client', backend')"
  then obtain b3 where "run_pattern compute ora (pat_seq (clean_pattern client)) client
       (blind_qubits client (prepare_states client backend)) = Inr (client', b3)"
    by (auto simp: delegate_pattern_def Let_def split: sum.splits)
  then have "written_by client client' (measured_nodes (pat_seq (clean_pattern client)))"
    by (rule run_pattern_writes)
  then have w: "(\<exists>ws. length ws = length (measured_nodes (pat_seq (clean_pattern client)))
            \<and> results client' = record_all (zip (measured_nodes (pat_seq (clean_pattern client))) ws) (results client))
         \<and> (\<forall>n. n \<notin> set (measured_nodes (pat_seq (clean_pattern client))) \<longrightarrow> results client' n = results client n)"
    by (rule written_by_results)
  from w show "\<exists>ws. length ws = length (measured_nodes (pat_seq (clean_pattern client)))
         \<and> results client'
             = record_all (zip (measured_nodes (pat_seq (clean_pattern client))) ws)
                 (results client)"
    by (rule conjunct1)
  from w show "\<forall>n. n \<notin> set (measured_nodes (pat_seq (clean_pattern client)))
             \<longrightarrow> results client' n = results client n"
    by (rule conjunct2)
next
  assume dt: "delegate_test_run compute ora client backend run
        = Inr (trap_outcomes, client'', backend'')"
  let ?c1 = "client\<lparr>measurement_db := all_X_measurements (measurement_db client)\<rparr>"
  from dt obtain c2 b1 where run: "run_pattern compute ora (pat_seq (clean_pattern ?c1)) ?c1 b1 = Inr (c2, backend'')"
    and c'': "client'' = c2\<lparr>measurement_db := measurement_db client\<rparr>"
    and outs: "trap_outcomes_loop (results c2) (traps_list run) = Inr trap_outcomes"
    by (auto simp: delegate_test_run_def Let_def split: sum.splits)
  from run_pattern_writes [OF run]
  have "written_by ?c1 c2 (measured_nodes (pat_seq (clean_pattern client)))"
    by simp
  then have "(\<exists>ws. length ws = length (measured_nodes (pat_seq (clean_pattern client)))
            \<and> results c2 = record_all (zip (measured_nodes (pat_seq (clean_pattern client))) ws) (results ?c1))
         \<and> (\<forall>n. n \<notin> set (measured_nodes (pat_seq (clean_pattern client))) \<longrightarrow> results c2 n = results ?c1 n)"
    by (rule written_by_results)
  with c'' have w: "(\<exists>ws. length ws = length (measured_nodes (pat_seq (clean_pattern client)))
            \<and> results client'' = record_all (zip (measured_nodes (pat_seq (clean_pattern client))) ws) (results client))
         \<and> (\<forall>n. n \<notin> set (measured_nodes (pat_seq (clean_pattern client))) \<longrightarrow> results client'' n = results client n)"
    by simp
  from w show "\<exists>ws. length ws = length (measured_nodes (pat_seq (clean_pattern client)))
         \<and> results client''
             = record_all (zip (measured_nodes (pat_seq (clean_pattern client))) ws)
                 (results client)"
    by (rule conjunct1)
  from w show "\<forall>n. n \<notin> set (measured_nodes (pat_seq (clean_pattern client)))
             \<longrightarrow> results client'' n = results client n"
    by (rule conjunct2)
  from outs c'' show "trap_outcomes_loop (results client'') (traps_list run) = Inr trap_outcomes"
    by simp
qed

text \<open>
  Both calls return on the client with the old entry, and the entry of node 2 is the
  same after each of them.
\<close>

theorem results_not_reset_witness:
  "\<exists>client' backend' client'' backend''.
     delegate_pattern example_compute (\<lambda>calls. True) stale_client [] = Inr (client', backend')
     \<and> results client' 2 = results stale_client 2
     \<and> delegate_test_run example_compute (\<lambda>calls. True) stale_client [] example_canvas
         = Inr ([0, 1], client'', backend'')
     \<and> results client'' 2 = results stale_client 2"
proof -
  have "\<exists>client' backend'.
     delegate_pattern example_compute (\<lambda>calls. True) stale_client [] = Inr (client', backend')"
    by (simp add: stale_client_def example_client_def
      delegate_pattern_def prepare_states_def blind_qubits_def
      measure_method_measure_def get_measurement_description_def set_measure_result_def
      decode_output_state_def decode_output_def getitem_def get_default_def
      example_compute_def x_blind_def Let_def)
  then obtain c' b' where dp:
    "delegate_pattern example_compute (\<lambda>calls. True) stale_client [] = Inr (c', b')"
    by blast
  have "\<exists>client'' backend''.
     delegate_test_run example_compute (\<lambda>calls. True) stale_client [] example_canvas
         = Inr ([0, 1], client'', backend'')"
    by (simp add: stale_client_def example_client_def example_canvas_def
      delegate_test_run_def blind_qubits_def
      measure_method_measure_def get_measurement_description_def set_measure_result_def
      getitem_def get_default_def
      all_X_measurements_def default_M_def example_compute_def x_blind_def Let_def)
  then obtain c'' b'' where dt:
    "delegate_test_run example_compute (\<lambda>calls. True) stale_client [] example_canvas
         = Inr ([0, 1], c'', b'')"
    by blast
  have m: "2 \<notin> set (measured_nodes (pat_seq (clean_pattern stale_client)))"
    by (simp add: stale_client_def example_client_def measured_nodes_def)
  from results_not_reset [of example_compute "\<lambda>calls. True" stale_client "[]" c' b'
      example_canvas "[0, 1]" c'' b''] dp dt m
  have "results c' 2 = results stale_client 2" and "results c'' 2 = results stale_client 2"
    by blast+
  with dp dt show ?thesis
    by blast
qed

end
